theory Spec2Isabelle
  imports Main "HOL-Library.Multiset"
begin

text \<open>
  The task and project state of Pocky: the records of its four collections, the
  handlers of \<open>Home\<close> that change them, the views computed from them (the filtered
  list, the sorted project list) and the effects that save them to \<open>localStorage\<close>
  and load them. The definitions come first, each after the function of the source it
  follows; the properties are proved after them.
\<close>

section \<open>Domain records (src/types/database.ts)\<close>

text \<open>
  The rows of the four persisted tables. A field of type \<open>string | null\<close> is a
  \<open>string option\<close> (\<open>None\<close> is \<open>null\<close>); \<open>position\<close> is an integer. Every record
  of the source has a field \<open>id\<close>, and several share \<open>name\<close>, \<open>position\<close> and
  \<open>created_at\<close>, so each field carries the name of its table in front.
\<close>

datatype task_status = Inbox | Active | Completed | Cancelled

datatype project_status = Project_active | Project_completed | Project_someday

datatype schedule = Anytime | Today | This_week | Next_week | Evening | Someday

record area =
  area_id :: string
  area_user_id :: string
  area_name :: string
  area_position :: int
  area_created_at :: string
  area_updated_at :: string

record project =
  project_id :: string
  project_user_id :: string
  project_area_id :: "string option"
  project_name :: string
  project_emoji :: "string option"
  project_notes :: "string option"
  project_position :: int
  project_status :: project_status
  project_deadline :: "string option"
  project_created_at :: string
  project_updated_at :: string
  project_completed_at :: "string option"

record heading =
  heading_id :: string
  heading_project_id :: string
  heading_name :: string
  heading_position :: int
  heading_created_at :: string

record task =
  task_id :: string
  task_user_id :: string
  task_project_id :: "string option"
  task_heading_id :: "string option"
  task_title :: string
  task_emoji :: "string option"
  task_notes :: "string option"
  task_status :: task_status
  task_schedule :: "schedule option"
  task_scheduled_date :: "string option"
  task_deadline :: "string option"
  task_position :: int
  task_created_at :: string
  task_updated_at :: string
  task_completed_at :: "string option"

section \<open>Application state (src/app/page.tsx, \<open>Home\<close>)\<close>

text \<open>
  The \<open>useState\<close> cells of \<open>Home\<close> that the mutation handlers read or write. A
  handler reads the cells of the render it was created in and calls their setters;
  the model passes the state in and returns the state after all setters have run.
  \<open>new Date().toISOString()\<close> reads the clock: the handlers that call it take the
  string it returns as the argument \<open>now\<close>.
\<close>

record app_state =
  activeView :: string
  tasks :: "task list"
  projects :: "project list"
  areas :: "area list"
  headings :: "heading list"
  isAddingTask :: bool
  addingTaskHeadingId :: "string option"
  isLoaded :: bool

definition handleToggleTask :: "string \<Rightarrow> app_state \<Rightarrow> string \<Rightarrow> bool \<Rightarrow> app_state" where
  "handleToggleTask now st taskId completed =
     st\<lparr>tasks := map (\<lambda>task.
        if task_id task = taskId
        then task\<lparr>task_status := (if completed then Completed else Active),
                  task_completed_at := (if completed then Some now else None)\<rparr>
        else task) (tasks st)\<rparr>"

text \<open>
  \<open>schedule || 'anytime'\<close>: the argument is one of the bucket names, all non-empty
  strings, or \<open>null\<close>, so only \<open>null\<close> is replaced.
\<close>

definition handleScheduleTask :: "app_state \<Rightarrow> string \<Rightarrow> schedule option \<Rightarrow> app_state" where
  "handleScheduleTask st taskId sched =
     st\<lparr>tasks := map (\<lambda>task.
        if task_id task = taskId
        then task\<lparr>task_schedule := Some (case sched of None \<Rightarrow> Anytime | Some s \<Rightarrow> s)\<rparr>
        else task) (tasks st)\<rparr>"

definition handleDeleteTask :: "app_state \<Rightarrow> string \<Rightarrow> app_state" where
  "handleDeleteTask st taskId =
     st\<lparr>tasks := filter (\<lambda>t. task_id t \<noteq> taskId) (tasks st)\<rparr>"

definition handleDeleteProject :: "app_state \<Rightarrow> string \<Rightarrow> app_state" where
  "handleDeleteProject st projectId =
     st\<lparr>projects := filter (\<lambda>p. project_id p \<noteq> projectId) (projects st),
        tasks := filter (\<lambda>t. task_project_id t \<noteq> Some projectId) (tasks st),
        headings := filter (\<lambda>h. heading_project_id h \<noteq> projectId) (headings st),
        activeView := (if activeView st = ''project:'' @ projectId then ''today''
                       else activeView st)\<rparr>"

definition handleMoveTaskToProject :: "string \<Rightarrow> app_state \<Rightarrow> string \<Rightarrow> string \<Rightarrow> app_state" where
  "handleMoveTaskToProject now st taskId projectId =
     st\<lparr>tasks := map (\<lambda>task.
        if task_id task = taskId
        then task\<lparr>task_project_id := Some projectId, task_heading_id := None,
                  task_updated_at := now\<rparr>
        else task) (tasks st)\<rparr>"

definition handleMoveTaskToSchedule :: "string \<Rightarrow> app_state \<Rightarrow> string \<Rightarrow> schedule \<Rightarrow> app_state" where
  "handleMoveTaskToSchedule now st taskId sched =
     st\<lparr>tasks := map (\<lambda>task.
        if task_id task = taskId
        then task\<lparr>task_schedule := Some sched, task_updated_at := now\<rparr>
        else task) (tasks st)\<rparr>"

section \<open>Updating a task from the detail view\<close>

text \<open>
  \<open>handleUpdateTask\<close> takes a \<open>Partial<Task>\<close>: an object with some of the fields of a
  task. A field it does not have is \<open>None\<close> here, a field it has is \<open>Some\<close> of its
  value (for a field that may be \<open>null\<close>, \<open>Some None\<close> is the value \<open>null\<close>).
  \<open>{...task, ...updates}\<close> takes each field from \<open>updates\<close> when it is there and from
  \<open>task\<close> otherwise.
\<close>

record task_updates =
  upd_id :: "string option"
  upd_user_id :: "string option"
  upd_project_id :: "string option option"
  upd_heading_id :: "string option option"
  upd_title :: "string option"
  upd_emoji :: "string option option"
  upd_notes :: "string option option"
  upd_status :: "task_status option"
  upd_schedule :: "schedule option option"
  upd_scheduled_date :: "string option option"
  upd_deadline :: "string option option"
  upd_position :: "int option"
  upd_created_at :: "string option"
  upd_updated_at :: "string option"
  upd_completed_at :: "string option option"

definition no_updates :: task_updates where
  "no_updates =
     \<lparr>upd_id = None, upd_user_id = None, upd_project_id = None, upd_heading_id = None,
      upd_title = None, upd_emoji = None, upd_notes = None, upd_status = None,
      upd_schedule = None, upd_scheduled_date = None, upd_deadline = None,
      upd_position = None, upd_created_at = None, upd_updated_at = None,
      upd_completed_at = None\<rparr>"

definition spread :: "task \<Rightarrow> task_updates \<Rightarrow> task" where
  "spread task updates =
     \<lparr>task_id = (case upd_id updates of None \<Rightarrow> task_id task | Some v \<Rightarrow> v),
      task_user_id = (case upd_user_id updates of None \<Rightarrow> task_user_id task | Some v \<Rightarrow> v),
      task_project_id =
        (case upd_project_id updates of None \<Rightarrow> task_project_id task | Some v \<Rightarrow> v),
      task_heading_id =
        (case upd_heading_id updates of None \<Rightarrow> task_heading_id task | Some v \<Rightarrow> v),
      task_title = (case upd_title updates of None \<Rightarrow> task_title task | Some v \<Rightarrow> v),
      task_emoji = (case upd_emoji updates of None \<Rightarrow> task_emoji task | Some v \<Rightarrow> v),
      task_notes = (case upd_notes updates of None \<Rightarrow> task_notes task | Some v \<Rightarrow> v),
      task_status = (case upd_status updates of None \<Rightarrow> task_status task | Some v \<Rightarrow> v),
      task_schedule =
        (case upd_schedule updates of None \<Rightarrow> task_schedule task | Some v \<Rightarrow> v),
      task_scheduled_date =
        (case upd_scheduled_date updates of None \<Rightarrow> task_scheduled_date task | Some v \<Rightarrow> v),
      task_deadline =
        (case upd_deadline updates of None \<Rightarrow> task_deadline task | Some v \<Rightarrow> v),
      task_position =
        (case upd_position updates of None \<Rightarrow> task_position task | Some v \<Rightarrow> v),
      task_created_at =
        (case upd_created_at updates of None \<Rightarrow> task_created_at task | Some v \<Rightarrow> v),
      task_updated_at =
        (case upd_updated_at updates of None \<Rightarrow> task_updated_at task | Some v \<Rightarrow> v),
      task_completed_at =
        (case upd_completed_at updates of None \<Rightarrow> task_completed_at task | Some v \<Rightarrow> v)\<rparr>"

definition handleUpdateTask :: "string \<Rightarrow> app_state \<Rightarrow> string \<Rightarrow> task_updates \<Rightarrow> app_state" where
  "handleUpdateTask now st taskId updates =
     st\<lparr>tasks := map (\<lambda>task.
        if task_id task = taskId
        then (spread task updates)\<lparr>task_updated_at := now\<rparr>
        else task) (tasks st)\<rparr>"

text \<open>
  The detail view (\<open>TaskDetailModal\<close>) completes and cancels its task through
  \<open>onUpdate\<close>, which \<open>Home\<close> binds to \<open>handleUpdateTask\<close> with the id of the selected
  task; both stamp \<open>completed_at\<close> with the clock's reading. (They also close the
  view, which is not part of the state modelled here.)
\<close>

definition handleComplete :: "string \<Rightarrow> (task_updates \<Rightarrow> app_state) \<Rightarrow> app_state" where
  "handleComplete now onUpdate =
     onUpdate (no_updates\<lparr>upd_status := Some Completed, upd_completed_at := Some (Some now)\<rparr>)"

definition handleCancel :: "string \<Rightarrow> (task_updates \<Rightarrow> app_state) \<Rightarrow> app_state" where
  "handleCancel now onUpdate =
     onUpdate (no_updates\<lparr>upd_status := Some Cancelled, upd_completed_at := Some (Some now)\<rparr>)"

section \<open>Strings, numbers and sorting of the platform\<close>

text \<open>
  The parts of the JavaScript library the views use. A string in a boolean position
  is false when it is \<open>null\<close> or empty: \<open>truthy\<close> returns the string when it counts as
  true. \<open>startsWith\<close> and \<open>replace\<close> (with a string pattern: the first occurrence
  only) are the methods of \<open>String\<close>; \<open>indexOf\<close> is the method of \<open>Array\<close>, with
  \<open>-1\<close> for an element that does not occur.
\<close>

fun truthy :: "string option \<Rightarrow> string option" where
  "truthy None = None"
| "truthy (Some []) = None"
| "truthy (Some (c # cs)) = Some (c # cs)"

definition startsWith :: "string \<Rightarrow> string \<Rightarrow> bool" where
  "startsWith s p = (take (length p) s = p)"

fun replace :: "string \<Rightarrow> string \<Rightarrow> string \<Rightarrow> string" where
  "replace [] pat rep = (if pat = [] then rep else [])"
| "replace (c # cs) pat rep =
     (if take (length pat) (c # cs) = pat then rep @ drop (length pat) (c # cs)
      else c # replace cs pat rep)"


text \<open>
  \<open>new Date(s).getTime()\<close> is the time value of the date a string denotes, in
  milliseconds, or \<open>NaN\<close> when the string denotes no date. The functions below take
  it as the argument \<open>getTime\<close>, with \<open>None\<close> for \<open>NaN\<close>; a difference with a \<open>NaN\<close>
  operand is \<open>NaN\<close>.
\<close>

definition number_minus :: "int option \<Rightarrow> int option \<Rightarrow> int option" where
  "number_minus a b =
     (case a of None \<Rightarrow> None | Some x \<Rightarrow> (case b of None \<Rightarrow> None | Some y \<Rightarrow> Some (x - y)))"

text \<open>
  \<open>Array.prototype.sort\<close> with a comparison function. The sort is stable, and it
  reads a result of \<open>NaN\<close> as \<open>0\<close>. For a comparison function that orders the
  elements consistently the result is determined: the elements in ascending order,
  equal ones in their order in the input. Insertion from the right computes it. (For
  a comparison function that is not consistent the platform leaves the order to the
  implementation; insertion is then one such implementation.)
\<close>

definition compare_result :: "int option \<Rightarrow> int" where
  "compare_result v = (case v of None \<Rightarrow> 0 | Some n \<Rightarrow> n)"

fun sort_insert :: "('a \<Rightarrow> 'a \<Rightarrow> int option) \<Rightarrow> 'a \<Rightarrow> 'a list \<Rightarrow> 'a list" where
  "sort_insert cmp x [] = [x]"
| "sort_insert cmp x (y # ys) =
     (if compare_result (cmp x y) \<le> 0 then x # y # ys else y # sort_insert cmp x ys)"

fun array_sort :: "('a \<Rightarrow> 'a \<Rightarrow> int option) \<Rightarrow> 'a list \<Rightarrow> 'a list" where
  "array_sort cmp [] = []"
| "array_sort cmp (x # xs) = sort_insert cmp x (array_sort cmp xs)"

section \<open>Saving an edited task (TaskDetailModal \<open>handleSave\<close>)\<close>

text \<open>
  \<open>handleSave\<close> of the detail view sends the fields of its form; its arguments are the
  state of the form (\<open>title\<close>, \<open>notes\<close>, \<open>schedule\<close>, \<open>scheduledDate\<close>, \<open>deadline\<close> and
  \<open>projectId\<close>), where an empty text stands for \<open>null\<close> in all but the title. The title
  is sent as it is.
\<close>

definition handleSave ::
  "(task_updates \<Rightarrow> app_state) \<Rightarrow> string \<Rightarrow> string \<Rightarrow> schedule option \<Rightarrow> string \<Rightarrow> string
   \<Rightarrow> string \<Rightarrow> app_state" where
  "handleSave onUpdate title_input notes_input schedule_input scheduledDate deadline_input
     projectId =
     onUpdate (no_updates\<lparr>upd_title := Some title_input,
                            upd_notes := Some (truthy (Some notes_input)),
                            upd_schedule := Some schedule_input,
                            upd_scheduled_date := Some (truthy (Some scheduledDate)),
                            upd_deadline := Some (truthy (Some deadline_input)),
                            upd_project_id := Some (truthy (Some projectId))\<rparr>)"

section \<open>The filtered view (src/app/page.tsx, \<open>filteredTasks\<close>)\<close>

definition filteredTasks :: "(string \<Rightarrow> int option) \<Rightarrow> app_state \<Rightarrow> task list" where
  "filteredTasks getTime st =
     array_sort (\<lambda>a b.
        if activeView st = ''logbook''
        then (let aDate = (case truthy (task_completed_at a) of
                             Some s \<Rightarrow> s | None \<Rightarrow> task_updated_at a);
                  bDate = (case truthy (task_completed_at b) of
                             Some s \<Rightarrow> s | None \<Rightarrow> task_updated_at b)
              in number_minus (getTime bDate) (getTime aDate))
        else Some 0)
       (filter (\<lambda>task.
          if startsWith (activeView st) ''project:''
          then task_project_id task = Some (replace (activeView st) ''project:'' [])
          else if activeView st = ''today''
            then task_schedule task = Some Today \<and> task_status task \<noteq> Completed
          else if activeView st = ''this_week''
            then task_schedule task = Some This_week \<and> task_status task \<noteq> Completed
          else if activeView st = ''next_week''
            then task_schedule task = Some Next_week \<and> task_status task \<noteq> Completed
          else if activeView st = ''anytime''
            then task_schedule task = Some Anytime \<and> task_status task \<noteq> Completed
          else if activeView st = ''someday''
            then task_schedule task = Some Someday \<and> task_status task \<noteq> Completed
          else if activeView st = ''logbook''
            then task_status task = Completed
          else False) (tasks st))"

section \<open>Sorting inside a project (ProjectView, \<open>sortTasks\<close>)\<close>





section \<open>Creating a task (TaskModal \<open>handleSubmit\<close>, \<open>handleAddTask\<close>)\<close>

text \<open>
  The modal hands its input to \<open>onSubmit\<close> only when the trimmed title is not empty.
  \<open>trim\<close> is \<open>String.prototype.trim\<close>, taken as an argument; \<open>deadline\<close> is the
  text of the date field, empty when no date was chosen. The fields of the object
  handed over are \<open>title\<close>, \<open>notes\<close> and \<open>deadline\<close>.
\<close>

record task_data =
  taskData_title :: string
  taskData_notes :: string
  taskData_deadline :: "string option"

definition handleSubmit ::
  "(string \<Rightarrow> string) \<Rightarrow> (app_state \<Rightarrow> task_data \<Rightarrow> app_state)
   \<Rightarrow> string \<Rightarrow> string \<Rightarrow> string \<Rightarrow> app_state \<Rightarrow> app_state" where
  "handleSubmit trim onSubmit title_input notes_input deadline_input st =
     (if trim title_input \<noteq> []
      then onSubmit st \<lparr>taskData_title = trim title_input,
                         taskData_notes = trim notes_input,
                         taskData_deadline = truthy (Some deadline_input)\<rparr>
      else st)"

text \<open>
  \<open>handleAddTask\<close> calls \<open>generateEmoji\<close> (of \<open>utils/emoji\<close>), \<open>crypto.randomUUID()\<close>
  and, twice, the clock: the function and the three values are arguments.
\<close>

definition handleAddTask ::
  "(string \<Rightarrow> string option) \<Rightarrow> string \<Rightarrow> string \<Rightarrow> string
   \<Rightarrow> app_state \<Rightarrow> task_data \<Rightarrow> app_state" where
  "handleAddTask generateEmoji randomUUID now now' st taskData =
     (let isProjectView = startsWith (activeView st) ''project:'';
          projectId = (if isProjectView then Some (replace (activeView st) ''project:'' [])
                       else None);
          newTask =
            \<lparr>task_id = randomUUID,
             task_user_id = ''demo'',
             task_project_id = projectId,
             task_heading_id = truthy (addingTaskHeadingId st),
             task_title = taskData_title taskData,
             task_emoji = generateEmoji (taskData_title taskData),
             task_notes = truthy (Some (taskData_notes taskData)),
             task_status = Active,
             task_schedule = Some
               (if activeView st = ''today'' then Today
                else if activeView st = ''this_week'' then This_week
                else if activeView st = ''next_week'' then Next_week
                else if activeView st = ''anytime'' then Anytime
                else if activeView st = ''someday'' then Someday
                else Anytime),
             task_scheduled_date = None,
             task_deadline = taskData_deadline taskData,
             task_position = int (length (tasks st)),
             task_created_at = now,
             task_updated_at = now',
             task_completed_at = None\<rparr>
      in st\<lparr>tasks := tasks st @ [newTask], isAddingTask := False,
             addingTaskHeadingId := None\<rparr>)"

section \<open>Creating a project and a heading\<close>

text \<open>
  \<open>handleCreateProject\<close> has an optional second argument, \<open>None\<close> when it is left
  out. The sidebar's form (\<open>handleSubmitProject\<close>) and the form of the project view
  (its own \<open>handleAddHeading\<close>, here \<open>ProjectView_handleAddHeading\<close>) call their
  callbacks with the trimmed name, and only when it is not empty; what they do to the
  state of their own components is left out.
\<close>

definition handleCreateProject ::
  "(string \<Rightarrow> string option) \<Rightarrow> string \<Rightarrow> string \<Rightarrow> string
   \<Rightarrow> app_state \<Rightarrow> string \<Rightarrow> string option \<Rightarrow> app_state" where
  "handleCreateProject generateEmoji randomUUID now now' st name areaId =
     (let newProject =
            \<lparr>project_id = randomUUID,
             project_user_id = ''demo'',
             project_area_id = truthy areaId,
             project_name = name,
             project_emoji = generateEmoji name,
             project_notes = None,
             project_position = int (length (projects st)),
             project_status = Project_active,
             project_deadline = None,
             project_created_at = now,
             project_updated_at = now',
             project_completed_at = None\<rparr>
      in st\<lparr>projects := projects st @ [newProject],
             activeView := ''project:'' @ project_id newProject\<rparr>)"

definition handleSubmitProject ::
  "(string \<Rightarrow> string) \<Rightarrow> (app_state \<Rightarrow> string \<Rightarrow> app_state) \<Rightarrow> string \<Rightarrow> app_state
   \<Rightarrow> app_state" where
  "handleSubmitProject trim onCreateProject newProjectName st =
     (if trim newProjectName \<noteq> [] then onCreateProject st (trim newProjectName) else st)"

text \<open>
  \<open>currentProjectId\<close> and \<open>projectHeadings\<close> are computed by \<open>Home\<close> at each render
  from the active view and the headings.
\<close>

definition currentProjectId :: "app_state \<Rightarrow> string option" where
  "currentProjectId st =
     (if startsWith (activeView st) ''project:''
      then Some (replace (activeView st) ''project:'' [])
      else None)"

definition projectHeadings :: "app_state \<Rightarrow> heading list" where
  "projectHeadings st =
     (case truthy (currentProjectId st) of
        Some p \<Rightarrow> filter (\<lambda>h. heading_project_id h = p) (headings st)
      | None \<Rightarrow> [])"

definition handleAddHeading :: "string \<Rightarrow> string \<Rightarrow> app_state \<Rightarrow> string \<Rightarrow> app_state" where
  "handleAddHeading randomUUID now st name =
     (case truthy (currentProjectId st) of
        None \<Rightarrow> st
      | Some p \<Rightarrow>
          (let newHeading =
                 \<lparr>heading_id = randomUUID,
                  heading_project_id = p,
                  heading_name = name,
                  heading_position = int (length (projectHeadings st)),
                  heading_created_at = now\<rparr>
           in st\<lparr>headings := headings st @ [newHeading]\<rparr>))"

definition ProjectView_handleAddHeading ::
  "(string \<Rightarrow> string) \<Rightarrow> (app_state \<Rightarrow> string \<Rightarrow> app_state) \<Rightarrow> string \<Rightarrow> app_state
   \<Rightarrow> app_state" where
  "ProjectView_handleAddHeading trim onAddHeading newHeadingName st =
     (if trim newHeadingName \<noteq> [] then onAddHeading st (trim newHeadingName) else st)"

section \<open>Persistence (src/app/page.tsx, the effects of \<open>Home\<close>)\<close>








section \<open>The platform's \<open>JSON\<close> (ECMA-262, \<open>JSON.stringify\<close> and \<open>JSON.parse\<close>)\<close>

text \<open>
  The values that a JSON text denotes. Of the numbers the model has the integers:
  the only numbers of the rows are the positions, which the program makes from the
  lengths of its lists. A string is a list of characters, as everywhere in the model.
  An object is the list of its properties in their order.
\<close>

datatype json_value =
    JNull
  | JBool bool
  | JNumber int
  | JString string
  | JArray "json_value list"
  | JObject "(string \<times> json_value) list"

text \<open>
  Writing. A number is written in decimal, with a minus sign when it is negative. A
  string is written between double quotes (character \<open>0x22\<close>), by \<open>QuoteJSONString\<close>: the
  double quote and the backslash (\<open>0x5C\<close>) after a backslash; backspace, tab, line
  feed, form feed and carriage return as a backslash and the letter \<open>b\<close>, \<open>t\<close>, \<open>n\<close>,
  \<open>f\<close> or \<open>r\<close>; every other character below \<open>0x20\<close> as a backslash, \<open>u00\<close> and two
  lower-case hexadecimal digits; and every other character as itself.
\<close>

definition digit_char :: "nat \<Rightarrow> char" where
  "digit_char n = char_of (48 + n)"

definition is_digit :: "char \<Rightarrow> bool" where
  "is_digit c = (48 \<le> (of_char c :: nat) \<and> (of_char c :: nat) \<le> 57)"

definition digit_value :: "char \<Rightarrow> nat" where
  "digit_value c = of_char c - 48"

fun show_nat :: "nat \<Rightarrow> string" where
  "show_nat n = (if n < 10 then [digit_char n] else show_nat (n div 10) @ [digit_char (n mod 10)])"

declare show_nat.simps [simp del]

definition show_int :: "int \<Rightarrow> string" where
  "show_int i = (if i < 0 then CHR ''-'' # show_nat (nat (- i)) else show_nat (nat i))"

definition hex_char :: "nat \<Rightarrow> char" where
  "hex_char n = (if n < 10 then char_of (48 + n) else char_of (87 + n))"

definition escape_char :: "char \<Rightarrow> string" where
  "escape_char c =
     (if c = CHR 0x08 then [CHR 0x5C, CHR ''b'']
      else if c = CHR 0x09 then [CHR 0x5C, CHR ''t'']
      else if c = CHR 0x0A then [CHR 0x5C, CHR ''n'']
      else if c = CHR 0x0C then [CHR 0x5C, CHR ''f'']
      else if c = CHR 0x0D then [CHR 0x5C, CHR ''r'']
      else if c = CHR 0x22 then [CHR 0x5C, CHR 0x22]
      else if c = CHR 0x5C then [CHR 0x5C, CHR 0x5C]
      else if (of_char c :: nat) < 32
        then [CHR 0x5C, CHR ''u'', CHR ''0'', CHR ''0'',
              hex_char (of_char c div 16), hex_char (of_char c mod 16)]
      else [c])"

definition quote :: "string \<Rightarrow> string" where
  "quote s = CHR 0x22 # concat (map escape_char s) @ [CHR 0x22]"

text \<open>
  \<open>JSON.stringify\<close> with one argument (no replacer, no indentation): the elements of
  an array and the properties of an object are separated by commas, a property is its
  quoted name, a colon and its value, and no white space is written.
\<close>

fun join :: "string list \<Rightarrow> string" where
  "join [] = []"
| "join [x] = x"
| "join (x # y # ys) = x @ CHR '','' # join (y # ys)"

fun JSON_stringify :: "json_value \<Rightarrow> string" where
  "JSON_stringify JNull = ''null''"
| "JSON_stringify (JBool b) = (if b then ''true'' else ''false'')"
| "JSON_stringify (JNumber i) = show_int i"
| "JSON_stringify (JString s) = quote s"
| "JSON_stringify (JArray vs) = CHR ''['' # join (map JSON_stringify vs) @ [CHR '']'']"
| "JSON_stringify (JObject kvs) =
     CHR ''{'' # join (map (\<lambda>(k, v). quote k @ CHR '':'' # JSON_stringify v) kvs) @ [CHR ''}'']"

text \<open>
  Reading. White space (tab, line feed, carriage return, space) may stand before and
  after every value and every punctuation mark. The characters of a string are read
  up to its closing quote: after a backslash comes one of the escapes of the grammar,
  the letter \<open>u\<close> among them with four hexadecimal digits of either case, and a
  character below \<open>0x20\<close> may not stand unescaped. A failure is the result \<open>None\<close>; an
  escaped code unit above \<open>0xFF\<close> is no character of the model and is \<open>None\<close> as well.
\<close>

definition is_ws :: "char \<Rightarrow> bool" where
  "is_ws c = (c = CHR 0x09 \<or> c = CHR 0x0A \<or> c = CHR 0x0D \<or> c = CHR 0x20)"

definition skip_ws :: "string \<Rightarrow> string" where
  "skip_ws s = dropWhile is_ws s"

definition hex_value :: "char \<Rightarrow> nat option" where
  "hex_value c =
     (let n = (of_char c :: nat)
      in if 48 \<le> n \<and> n \<le> 57 then Some (n - 48)
         else if 97 \<le> n \<and> n \<le> 102 then Some (n - 87)
         else if 65 \<le> n \<and> n \<le> 70 then Some (n - 55)
         else None)"

fun hex4 :: "string \<Rightarrow> nat option" where
  "hex4 [a, b, c, d] =
     (case (hex_value a, hex_value b, hex_value c, hex_value d) of
        (Some w, Some x, Some y, Some z) \<Rightarrow> Some (((w * 16 + x) * 16 + y) * 16 + z)
      | _ \<Rightarrow> None)"
| "hex4 _ = None"

definition unescape :: "char \<Rightarrow> char option" where
  "unescape e =
     (if e = CHR 0x22 then Some (CHR 0x22)
      else if e = CHR 0x5C then Some (CHR 0x5C)
      else if e = CHR ''/'' then Some (CHR ''/'')
      else if e = CHR ''b'' then Some (CHR 0x08)
      else if e = CHR ''f'' then Some (CHR 0x0C)
      else if e = CHR ''n'' then Some (CHR 0x0A)
      else if e = CHR ''r'' then Some (CHR 0x0D)
      else if e = CHR ''t'' then Some (CHR 0x09)
      else None)"

fun parse_chars :: "string \<Rightarrow> (string \<times> string) option" where
  "parse_chars [] = None"
| "parse_chars (c # cs) =
     (if c = CHR 0x22 then Some ([], cs)
      else if c = CHR 0x5C then
        (case cs of
           [] \<Rightarrow> None
         | e # cs1 \<Rightarrow>
             if e = CHR ''u'' then
               (case hex4 (take 4 cs1) of
                  None \<Rightarrow> None
                | Some n \<Rightarrow>
                    if n < 256
                    then map_option (apfst ((#) (char_of n))) (parse_chars (drop 4 cs1))
                    else None)
             else
               (case unescape e of
                  None \<Rightarrow> None
                | Some d \<Rightarrow> map_option (apfst ((#) d)) (parse_chars cs1)))
      else if (of_char c :: nat) < 32 then None
      else map_option (apfst ((#) c)) (parse_chars cs))"

text \<open>
  A number: an optional minus sign and the digits, with no leading zero before
  another digit. A number with a fraction or an exponent is no value of the model: the
  result is \<open>None\<close>.
\<close>

definition digits_value :: "string \<Rightarrow> nat" where
  "digits_value ds = foldl (\<lambda>a d. 10 * a + digit_value d) 0 ds"

definition parse_number :: "string \<Rightarrow> (json_value \<times> string) option" where
  "parse_number s =
     (let negative = (s \<noteq> [] \<and> hd s = CHR ''-'');
          s1 = (if negative then tl s else s);
          ds = takeWhile is_digit s1;
          rest = dropWhile is_digit s1
      in if ds = [] then None
         else if hd ds = CHR ''0'' \<and> 1 < length ds then None
         else if rest \<noteq> [] \<and> (hd rest = CHR ''.'' \<or> hd rest = CHR ''e'' \<or> hd rest = CHR ''E'')
           then None
         else Some (JNumber (if negative then - int (digits_value ds) else int (digits_value ds)),
                    rest))"

text \<open>
  The values, the elements of an array after its opening bracket and the properties of
  an object after its opening brace, each with the text that follows it. Every call
  passes one unit less of fuel on; without fuel the result is \<open>None\<close>.
\<close>

fun parse_value :: "nat \<Rightarrow> string \<Rightarrow> (json_value \<times> string) option"
  and parse_elements :: "nat \<Rightarrow> string \<Rightarrow> (json_value list \<times> string) option"
  and parse_members :: "nat \<Rightarrow> string \<Rightarrow> ((string \<times> json_value) list \<times> string) option"
where
  "parse_value 0 s = None"
| "parse_value (Suc n) s =
     (case skip_ws s of
        [] \<Rightarrow> None
      | c # cs \<Rightarrow>
          if c = CHR 0x22 then map_option (apfst JString) (parse_chars cs)
          else if c = CHR ''['' then
            (case skip_ws cs of
               [] \<Rightarrow> None
             | d # ds \<Rightarrow>
                 if d = CHR '']'' then Some (JArray [], ds)
                 else map_option (apfst JArray) (parse_elements n cs))
          else if c = CHR ''{'' then
            (case skip_ws cs of
               [] \<Rightarrow> None
             | d # ds \<Rightarrow>
                 if d = CHR ''}'' then Some (JObject [], ds)
                 else map_option (apfst JObject) (parse_members n cs))
          else if c = CHR ''-'' \<or> is_digit c then parse_number (c # cs)
          else if take 4 (c # cs) = ''null'' then Some (JNull, drop 4 (c # cs))
          else if take 4 (c # cs) = ''true'' then Some (JBool True, drop 4 (c # cs))
          else if take 5 (c # cs) = ''false'' then Some (JBool False, drop 5 (c # cs))
          else None)"
| "parse_elements 0 s = None"
| "parse_elements (Suc n) s =
     (case parse_value n s of
        None \<Rightarrow> None
      | Some (v, r) \<Rightarrow>
          (case skip_ws r of
             [] \<Rightarrow> None
           | c # cs \<Rightarrow>
               if c = CHR '','' then map_option (apfst ((#) v)) (parse_elements n cs)
               else if c = CHR '']'' then Some ([v], cs)
               else None))"
| "parse_members 0 s = None"
| "parse_members (Suc n) s =
     (case skip_ws s of
        [] \<Rightarrow> None
      | q # s1 \<Rightarrow>
          if q \<noteq> CHR 0x22 then None
          else
            (case parse_chars s1 of
               None \<Rightarrow> None
             | Some (k, s2) \<Rightarrow>
                 (case skip_ws s2 of
                    [] \<Rightarrow> None
                  | colon # s3 \<Rightarrow>
                      if colon \<noteq> CHR '':'' then None
                      else
                        (case parse_value n s3 of
                           None \<Rightarrow> None
                         | Some (v, s4) \<Rightarrow>
                             (case skip_ws s4 of
                                [] \<Rightarrow> None
                              | c # cs \<Rightarrow>
                                  if c = CHR '','' then
                                    map_option (apfst ((#) (k, v))) (parse_members n cs)
                                  else if c = CHR ''}'' then Some ([(k, v)], cs)
                                  else None)))))"

text \<open>
  \<open>JSON.parse\<close> with one argument (no reviver): the text is one value, with nothing but
  white space after it. \<open>JSON.parse\<close> throws a \<open>SyntaxError\<close> on any other text, which is
  the result \<open>None\<close>. The fuel is the length of the text; that it is enough for every
  text that \<open>JSON.stringify\<close> writes is part of what is proved of the two below.
\<close>

definition JSON_parse :: "string \<Rightarrow> json_value option" where
  "JSON_parse s =
     (case parse_value (length s) s of
        None \<Rightarrow> None
      | Some (v, r) \<Rightarrow> if skip_ws r = [] then Some v else None)"


definition value_start :: "char \<Rightarrow> bool" where
  "value_start c =
     (c = CHR 0x22 \<or> c = CHR ''['' \<or> c = CHR ''{'' \<or> c = CHR ''-'' \<or> is_digit c
      \<or> c = CHR ''n'' \<or> c = CHR ''t'' \<or> c = CHR ''f'')"

definition value_end :: "string \<Rightarrow> bool" where
  "value_end rest =
     (rest = [] \<or> hd rest = CHR '','' \<or> hd rest = CHR '']'' \<or> hd rest = CHR ''}'')"

section \<open>The rows as JSON values\<close>



fun nullable_of_json :: "json_value \<Rightarrow> string option option" where
  "nullable_of_json JNull = Some None"
| "nullable_of_json (JString s) = Some (Some s)"
| "nullable_of_json _ = None"


definition json_of_nullable :: "string option \<Rightarrow> json_value" where
  "json_of_nullable s = (case s of None \<Rightarrow> JNull | Some x \<Rightarrow> JString x)"

fun task_status_text :: "task_status \<Rightarrow> string" where
  "task_status_text Inbox = ''inbox''"
| "task_status_text Active = ''active''"
| "task_status_text Completed = ''completed''"
| "task_status_text Cancelled = ''cancelled''"

definition task_status_of_json :: "json_value \<Rightarrow> task_status option" where
  "task_status_of_json v =
     (if v = JString ''inbox'' then Some Inbox
      else if v = JString ''active'' then Some Active
      else if v = JString ''completed'' then Some Completed
      else if v = JString ''cancelled'' then Some Cancelled
      else None)"

fun project_status_text :: "project_status \<Rightarrow> string" where
  "project_status_text Project_active = ''active''"
| "project_status_text Project_completed = ''completed''"
| "project_status_text Project_someday = ''someday''"

definition project_status_of_json :: "json_value \<Rightarrow> project_status option" where
  "project_status_of_json v =
     (if v = JString ''active'' then Some Project_active
      else if v = JString ''completed'' then Some Project_completed
      else if v = JString ''someday'' then Some Project_someday
      else None)"

fun schedule_text :: "schedule \<Rightarrow> string" where
  "schedule_text Anytime = ''anytime''"
| "schedule_text Today = ''today''"
| "schedule_text This_week = ''this_week''"
| "schedule_text Next_week = ''next_week''"
| "schedule_text Evening = ''evening''"
| "schedule_text Someday = ''someday''"

definition json_of_schedule :: "schedule option \<Rightarrow> json_value" where
  "json_of_schedule s = (case s of None \<Rightarrow> JNull | Some x \<Rightarrow> JString (schedule_text x))"

definition schedule_of_json :: "json_value \<Rightarrow> schedule option option" where
  "schedule_of_json v =
     (if v = JNull then Some None
      else if v = JString ''anytime'' then Some (Some Anytime)
      else if v = JString ''today'' then Some (Some Today)
      else if v = JString ''this_week'' then Some (Some This_week)
      else if v = JString ''next_week'' then Some (Some Next_week)
      else if v = JString ''evening'' then Some (Some Evening)
      else if v = JString ''someday'' then Some (Some Someday)
      else None)"













section \<open>Runs of toggles\<close>

text \<open>
  A run of the checkbox: each click calls \<open>handleToggleTask\<close> with a task id, the
  new completion flag and the clock's reading at that moment, on the state the
  previous click left.
\<close>

fun toggle_run :: "app_state \<Rightarrow> (string \<times> bool \<times> string) list \<Rightarrow> app_state" where
  "toggle_run st [] = st"
| "toggle_run st ((taskId, completed, now) # clicks) =
     toggle_run (handleToggleTask now st taskId completed) clicks"

definition completed_iff_stamped :: "task \<Rightarrow> bool" where
  "completed_iff_stamped t = ((task_status t = Completed) = (task_completed_at t \<noteq> None))"

section \<open>Sample data\<close>

text \<open>
  A small state on which the theorems below are exercised: two projects, one heading
  in each, and three tasks, the first under heading \<open>h1\<close> of project \<open>p1\<close>, the
  second under heading \<open>h2\<close> of project \<open>p2\<close>, the third in no project. The view
  of project \<open>p1\<close> is the active one.
\<close>

definition sample_task :: "string \<Rightarrow> string option \<Rightarrow> string option \<Rightarrow> task" where
  "sample_task i p h =
     \<lparr>task_id = i, task_user_id = ''demo'', task_project_id = p, task_heading_id = h,
      task_title = ''Buy milk'', task_emoji = None, task_notes = None,
      task_status = Active, task_schedule = Some Today, task_scheduled_date = None,
      task_deadline = None, task_position = 0,
      task_created_at = ''2024-01-01T00:00:00.000Z'',
      task_updated_at = ''2024-01-01T00:00:00.000Z'', task_completed_at = None\<rparr>"

definition sample_project :: "string \<Rightarrow> project" where
  "sample_project i =
     \<lparr>project_id = i, project_user_id = ''demo'', project_area_id = None,
      project_name = ''Home'', project_emoji = None, project_notes = None,
      project_position = 0, project_status = Project_active, project_deadline = None,
      project_created_at = ''2024-01-01T00:00:00.000Z'',
      project_updated_at = ''2024-01-01T00:00:00.000Z'', project_completed_at = None\<rparr>"

definition sample_heading :: "string \<Rightarrow> string \<Rightarrow> heading" where
  "sample_heading i p =
     \<lparr>heading_id = i, heading_project_id = p, heading_name = ''Errands'',
      heading_position = 0, heading_created_at = ''2024-01-01T00:00:00.000Z''\<rparr>"

definition sample_state :: app_state where
  "sample_state =
     \<lparr>activeView = ''project:p1'',
      tasks = [sample_task ''t1'' (Some ''p1'') (Some ''h1''),
               sample_task ''t2'' (Some ''p2'') (Some ''h2''),
               sample_task ''t3'' None None],
      projects = [sample_project ''p1'', sample_project ''p2''],
      areas = [],
      headings = [sample_heading ''h1'' ''p1'', sample_heading ''h2'' ''p2''],
      isAddingTask = False, addingTaskHeadingId = None, isLoaded = True\<rparr>"

definition sample_cancelled :: app_state where
  "sample_cancelled =
     handleCancel ''2024-01-15T09:00:00.000Z''
       (handleUpdateTask ''2024-01-15T09:00:00.001Z'' sample_state ''t1'')"

definition sample_clicks :: "(string \<times> bool \<times> string) list" where
  "sample_clicks =
     [(''t2'', True, ''2024-02-01T09:00:00.000Z''),
      (''t3'', True, ''2024-02-02T09:00:00.000Z''),
      (''t3'', False, ''2024-02-03T09:00:00.000Z'')]"

text \<open>
  Dates for the sorted views: the time values of the dates the sample data uses (in
  milliseconds since 1970, as \<open>getTime\<close> gives them), a comparison of strings by
  character code, tasks with a deadline, and completed tasks.
\<close>

definition sample_getTime :: "string \<Rightarrow> int option" where
  "sample_getTime s =
     (if s = ''2024-03-01'' then Some 1709251200000
      else if s = ''2024-03-02'' then Some 1709337600000
      else if s = ''2024-01-01T00:00:00.000Z'' then Some 1704067200000
      else if s = ''2024-02-01T09:00:00.000Z'' then Some 1706778000000
      else if s = ''2024-02-02T09:00:00.000Z'' then Some 1706864400000
      else if s = ''2024-02-03T09:00:00.000Z'' then Some 1706950800000
      else None)"



definition sample_done :: "string \<Rightarrow> string option \<Rightarrow> string \<Rightarrow> task" where
  "sample_done i c u =
     (sample_task i None None)\<lparr>task_status := Completed, task_completed_at := c,
                               task_updated_at := u\<rparr>"

definition sample_logbook :: app_state where
  "sample_logbook =
     sample_state\<lparr>activeView := ''logbook'',
       tasks := [sample_done ''t1'' (Some ''2024-02-01T09:00:00.000Z'') ''2024-02-01T09:00:00.000Z'',
                 sample_task ''t2'' None None,
                 sample_done ''t3'' None ''2024-02-03T09:00:00.000Z'',
                 sample_done ''t4'' (Some ''2024-02-02T09:00:00.000Z'') ''2024-01-01T00:00:00.000Z'']\<rparr>"

text \<open>
  For creating a task: \<open>trim\<close> on ASCII text (the white space characters of ASCII
  are removed at both ends), and an emoji table that knows one word.
\<close>

definition ascii_white_space :: "char \<Rightarrow> bool" where
  "ascii_white_space c =
     (c = CHR 0x09 \<or> c = CHR 0x0A \<or> c = CHR 0x0B \<or> c = CHR 0x0C \<or> c = CHR 0x0D \<or> c = CHR '' '')"

definition ascii_trim :: "string \<Rightarrow> string" where
  "ascii_trim s = rev (dropWhile ascii_white_space (rev (dropWhile ascii_white_space s)))"

definition sample_generateEmoji :: "string \<Rightarrow> string option" where
  "sample_generateEmoji t = (if t = ''Call mum'' then Some ''phone'' else None)"

text \<open>
  A logbook with a date that denotes no date between two that do, and a list for the
  due-date mode with a deadline that denotes no date, two equal deadlines, a task with
  no deadline and one whose deadline is the empty string.
\<close>

definition sample_logbook_undated :: app_state where
  "sample_logbook_undated =
     sample_state\<lparr>activeView := ''logbook'',
       tasks := [sample_done ''t1'' (Some ''2024-02-01T09:00:00.000Z'') ''2024-02-01T09:00:00.000Z'',
                 sample_done ''t2'' (Some ''yesterday'') ''2024-02-02T09:00:00.000Z'',
                 sample_done ''t3'' (Some ''2024-02-03T09:00:00.000Z'') ''2024-02-03T09:00:00.000Z'']\<rparr>"


section \<open>Deleting a project\<close>

text \<open>
  C1. Deleting project \<open>P\<close> removes every project whose id is \<open>P\<close>, every task whose
  \<open>project_id\<close> is \<open>P\<close> and every heading whose \<open>project_id\<close> is \<open>P\<close>, and nothing
  else: what stays are exactly the records that do not refer to \<open>P\<close>. No task or
  heading refers to \<open>P\<close> afterwards, and when the active view was the view of \<open>P\<close>
  it becomes \<open>today\<close> (any other view stays).
\<close>

theorem handleDeleteProject_cascade:
  "(\<forall>p \<in> set (projects (handleDeleteProject st P)). project_id p \<noteq> P) \<and>
   (\<forall>t \<in> set (tasks (handleDeleteProject st P)). task_project_id t \<noteq> Some P) \<and>
   (\<forall>h \<in> set (headings (handleDeleteProject st P)). heading_project_id h \<noteq> P) \<and>
   set (projects (handleDeleteProject st P)) = {p \<in> set (projects st). project_id p \<noteq> P} \<and>
   set (tasks (handleDeleteProject st P)) = {t \<in> set (tasks st). task_project_id t \<noteq> Some P} \<and>
   set (headings (handleDeleteProject st P)) = {h \<in> set (headings st). heading_project_id h \<noteq> P} \<and>
   (activeView st = ''project:'' @ P \<longrightarrow> activeView (handleDeleteProject st P) = ''today'') \<and>
   (activeView st \<noteq> ''project:'' @ P \<longrightarrow> activeView (handleDeleteProject st P) = activeView st)"
  by (simp add: handleDeleteProject_def)

theorem handleDeleteProject_cascade_witness:
  "activeView sample_state = ''project:'' @ ''p1'' \<and>
   map project_id (projects (handleDeleteProject sample_state ''p1'')) = [''p2''] \<and>
   map task_id (tasks (handleDeleteProject sample_state ''p1'')) = [''t2'', ''t3''] \<and>
   map heading_id (headings (handleDeleteProject sample_state ''p1'')) = [''h2''] \<and>
   activeView (handleDeleteProject sample_state ''p1'') = ''today''"
  using handleDeleteProject_cascade [of sample_state "''p1''"]
  by (simp add: handleDeleteProject_def sample_state_def sample_task_def
      sample_project_def sample_heading_def)

section \<open>Moving a task\<close>

text \<open>
  C2, as the claim states it, fails on the code: moving a task to a schedule bucket
  does not clear its \<open>heading_id\<close>. Task \<open>t1\<close> of the sample state is under heading
  \<open>h1\<close>; after it is moved to the bucket \<open>someday\<close> it still is.
\<close>

theorem handleMoveTaskToSchedule_keeps_heading:
  "task_id (tasks sample_state ! 0) = ''t1'' \<and>
   task_schedule (tasks (handleMoveTaskToSchedule ''2024-02-01T09:00:00.000Z''
      sample_state ''t1'' Someday) ! 0) = Some Someday \<and>
   task_heading_id (tasks (handleMoveTaskToSchedule ''2024-02-01T09:00:00.000Z''
      sample_state ''t1'' Someday) ! 0) = Some ''h1''"
  by (simp add: handleMoveTaskToSchedule_def sample_state_def sample_task_def)

text \<open>
  C2, amended. Moving task \<open>tid\<close> to a schedule bucket \<open>b\<close> sets its \<open>schedule\<close> to \<open>b\<close>
  and leaves its \<open>heading_id\<close> as it was; moving it to a project \<open>p\<close> sets its
  \<open>project_id\<close> to \<open>p\<close> and clears its \<open>heading_id\<close>. Both set \<open>updated_at\<close> to the
  current time, change no other field of the task, and leave every other task (and
  the length and order of the list) as it was.
\<close>

theorem move_task_fields:
  "length (tasks (handleMoveTaskToSchedule now st tid b)) = length (tasks st) \<and>
   length (tasks (handleMoveTaskToProject now st tid p)) = length (tasks st) \<and>
   (\<forall>i < length (tasks st).
      (task_id (tasks st ! i) = tid \<longrightarrow>
         task_schedule (tasks (handleMoveTaskToSchedule now st tid b) ! i) = Some b \<and>
         task_heading_id (tasks (handleMoveTaskToSchedule now st tid b) ! i)
           = task_heading_id (tasks st ! i) \<and>
         task_updated_at (tasks (handleMoveTaskToSchedule now st tid b) ! i) = now \<and>
         (tasks (handleMoveTaskToSchedule now st tid b) ! i)
           \<lparr>task_schedule := task_schedule (tasks st ! i),
            task_updated_at := task_updated_at (tasks st ! i)\<rparr> = tasks st ! i \<and>
         task_project_id (tasks (handleMoveTaskToProject now st tid p) ! i) = Some p \<and>
         task_heading_id (tasks (handleMoveTaskToProject now st tid p) ! i) = None \<and>
         task_updated_at (tasks (handleMoveTaskToProject now st tid p) ! i) = now \<and>
         (tasks (handleMoveTaskToProject now st tid p) ! i)
           \<lparr>task_project_id := task_project_id (tasks st ! i),
            task_heading_id := task_heading_id (tasks st ! i),
            task_updated_at := task_updated_at (tasks st ! i)\<rparr> = tasks st ! i) \<and>
      (task_id (tasks st ! i) \<noteq> tid \<longrightarrow>
         tasks (handleMoveTaskToSchedule now st tid b) ! i = tasks st ! i \<and>
         tasks (handleMoveTaskToProject now st tid p) ! i = tasks st ! i))"
  by (simp add: handleMoveTaskToSchedule_def handleMoveTaskToProject_def)

theorem move_task_fields_witness:
  "(0::nat) < length (tasks sample_state) \<and> task_id (tasks sample_state ! 0) = ''t1'' \<and>
   task_schedule (tasks (handleMoveTaskToSchedule ''2024-02-01T09:00:00.000Z''
      sample_state ''t1'' Someday) ! 0) = Some Someday \<and>
   task_heading_id (tasks (handleMoveTaskToSchedule ''2024-02-01T09:00:00.000Z''
      sample_state ''t1'' Someday) ! 0) = Some ''h1'' \<and>
   task_project_id (tasks (handleMoveTaskToProject ''2024-02-01T09:00:00.000Z''
      sample_state ''t1'' ''p2'') ! 0) = Some ''p2'' \<and>
   task_heading_id (tasks (handleMoveTaskToProject ''2024-02-01T09:00:00.000Z''
      sample_state ''t1'' ''p2'') ! 0) = None \<and>
   task_updated_at (tasks (handleMoveTaskToProject ''2024-02-01T09:00:00.000Z''
      sample_state ''t1'' ''p2'') ! 0) = ''2024-02-01T09:00:00.000Z''"
  using move_task_fields [of "''2024-02-01T09:00:00.000Z''" sample_state "''t1''" Someday "''p2''"]
  by (simp add: sample_state_def sample_task_def)

section \<open>Scheduling from the picker\<close>

text \<open>
  C9. The schedule handler never stores \<open>null\<close>: called with \<open>null\<close> (the picker's
  Clear button) it sets the schedule of the task to \<open>anytime\<close>, and called with a
  bucket it sets that bucket. Whatever the argument, a task with the given id leaves
  the handler with a schedule.
\<close>

theorem handleScheduleTask_never_null:
  "length (tasks (handleScheduleTask st tid sched)) = length (tasks st) \<and>
   (\<forall>i < length (tasks st). task_id (tasks st ! i) = tid \<longrightarrow>
      task_schedule (tasks (handleScheduleTask st tid None) ! i) = Some Anytime \<and>
      task_schedule (tasks (handleScheduleTask st tid (Some b)) ! i) = Some b \<and>
      task_schedule (tasks (handleScheduleTask st tid sched) ! i) \<noteq> None)"
  by (simp add: handleScheduleTask_def)

theorem handleScheduleTask_never_null_witness:
  "(0::nat) < length (tasks sample_state) \<and> task_id (tasks sample_state ! 0) = ''t1'' \<and>
   task_schedule (tasks sample_state ! 0) = Some Today \<and>
   task_schedule (tasks (handleScheduleTask sample_state ''t1'' None) ! 0) = Some Anytime"
  using handleScheduleTask_never_null [of sample_state "''t1''" None Anytime]
  by (simp add: sample_state_def sample_task_def)

section \<open>Deleting a task\<close>

text \<open>
  C10. Deleting task \<open>T\<close> removes the tasks whose id is \<open>T\<close> and only those: no task
  with id \<open>T\<close> is left, the tasks with another id are the same records in the same
  order as before, and the projects, areas and headings are what they were.
\<close>

theorem handleDeleteTask_frame:
  "(\<forall>t \<in> set (tasks (handleDeleteTask st T)). task_id t \<noteq> T) \<and>
   filter (\<lambda>t. task_id t \<noteq> T) (tasks (handleDeleteTask st T))
     = filter (\<lambda>t. task_id t \<noteq> T) (tasks st) \<and>
   tasks (handleDeleteTask st T) = filter (\<lambda>t. task_id t \<noteq> T) (tasks st) \<and>
   projects (handleDeleteTask st T) = projects st \<and>
   areas (handleDeleteTask st T) = areas st \<and>
   headings (handleDeleteTask st T) = headings st \<and>
   activeView (handleDeleteTask st T) = activeView st"
  by (simp add: handleDeleteTask_def)

theorem handleDeleteTask_frame_witness:
  "tasks (handleDeleteTask sample_state ''t2'')
     = [sample_task ''t1'' (Some ''p1'') (Some ''h1''), sample_task ''t3'' None None] \<and>
   projects (handleDeleteTask sample_state ''t2'') = projects sample_state \<and>
   headings (handleDeleteTask sample_state ''t2'') = headings sample_state"
  using handleDeleteTask_frame [of sample_state "''t2''"]
  by (simp add: sample_state_def sample_task_def)

section \<open>Completion and its timestamp\<close>

lemma length_handleToggleTask:
  "length (tasks (handleToggleTask now st tid c)) = length (tasks st)"
  by (simp add: handleToggleTask_def)

lemma handleToggleTask_hit:
  "i < length (tasks st) \<Longrightarrow> task_id (tasks st ! i) = tid \<Longrightarrow>
   completed_iff_stamped (tasks (handleToggleTask now st tid c) ! i)"
  by (simp add: handleToggleTask_def completed_iff_stamped_def)

lemma handleToggleTask_miss:
  "i < length (tasks st) \<Longrightarrow> task_id (tasks st ! i) \<noteq> tid \<Longrightarrow>
   tasks (handleToggleTask now st tid c) ! i = tasks st ! i"
  by (simp add: handleToggleTask_def)

lemma length_toggle_run: "length (tasks (toggle_run st clicks)) = length (tasks st)"
  by (induction st clicks rule: toggle_run.induct) (simp_all add: length_handleToggleTask)

lemma toggle_run_miss:
  "i < length (tasks st) \<Longrightarrow> task_id (tasks st ! i) \<notin> fst ` set clicks \<Longrightarrow>
   tasks (toggle_run st clicks) ! i = tasks st ! i"
proof (induction st clicks rule: toggle_run.induct)
  case (1 st)
  show ?case by simp
next
  case (2 st taskId completed now clicks)
  let ?st = "handleToggleTask now st taskId completed"
  from "2.prems" have miss: "task_id (tasks st ! i) \<noteq> taskId"
    and rest: "task_id (tasks st ! i) \<notin> fst ` set clicks"
    by auto
  from "2.prems"(1) miss have same: "tasks ?st ! i = tasks st ! i"
    by (rule handleToggleTask_miss)
  have "tasks (toggle_run ?st clicks) ! i = tasks ?st ! i"
    using "2.prems"(1) rest by (intro "2.IH") (simp_all add: length_handleToggleTask same)
  with same show ?case by simp
qed

lemma toggle_run_consistent:
  "i < length (tasks st) \<Longrightarrow>
   task_id (tasks st ! i) \<in> fst ` set clicks \<or> completed_iff_stamped (tasks st ! i) \<Longrightarrow>
   completed_iff_stamped (tasks (toggle_run st clicks) ! i)"
proof (induction st clicks rule: toggle_run.induct)
  case (1 st)
  then show ?case by simp
next
  case (2 st taskId completed now clicks)
  let ?st = "handleToggleTask now st taskId completed"
  have i: "i < length (tasks ?st)"
    using "2.prems"(1) by (simp add: length_handleToggleTask)
  have "task_id (tasks ?st ! i) \<in> fst ` set clicks \<or> completed_iff_stamped (tasks ?st ! i)"
  proof (cases "task_id (tasks st ! i) = taskId")
    case True
    with "2.prems"(1) show ?thesis by (simp add: handleToggleTask_hit)
  next
    case False
    with "2.prems"(1) have "tasks ?st ! i = tasks st ! i"
      by (rule handleToggleTask_miss)
    with "2.prems"(2) False show ?thesis by auto
  qed
  with i have "completed_iff_stamped (tasks (toggle_run ?st clicks) ! i)"
    by (rule "2.IH")
  then show ?case by simp
qed

text \<open>
  C3, as the claim states it, fails on the code: a toggle writes only the task with
  the given id, and a collection can hold a task whose \<open>completed_at\<close> is set while
  its status is not \<open>completed\<close>. Cancelling task \<open>t1\<close> of the sample state from the
  detail view stamps its \<open>completed_at\<close>; after toggles of \<open>t2\<close> and \<open>t3\<close> it is
  still cancelled and still stamped.
\<close>

theorem toggle_run_leaves_cancelled:
  "map task_id (tasks sample_cancelled) = [''t1'', ''t2'', ''t3''] \<and>
   map fst sample_clicks = [''t2'', ''t3'', ''t3''] \<and>
   task_status (tasks (toggle_run sample_cancelled sample_clicks) ! 0) = Cancelled \<and>
   task_completed_at (tasks (toggle_run sample_cancelled sample_clicks) ! 0)
     = Some ''2024-01-15T09:00:00.000Z''"
  by (simp add: sample_cancelled_def sample_clicks_def sample_state_def sample_task_def
      handleCancel_def handleUpdateTask_def handleToggleTask_def spread_def no_updates_def)

text \<open>
  C3, amended. Completing a task sets its status to \<open>completed\<close> and its
  \<open>completed_at\<close> to the time of the click; un-completing it sets the status to
  \<open>active\<close> and \<open>completed_at\<close> back to \<open>null\<close>. After any run of toggles, every task
  that was toggled in the run, and every task that satisfied the equivalence before
  it, has status \<open>completed\<close> if and only if its \<open>completed_at\<close> is not \<open>null\<close>; a
  task that no toggle of the run names is the record it was.
\<close>

theorem toggle_run_completed_iff_stamped:
  "length (tasks (toggle_run st clicks)) = length (tasks st) \<and>
   (\<forall>i < length (tasks st).
      (task_id (tasks st ! i) \<in> fst ` set clicks \<or> completed_iff_stamped (tasks st ! i) \<longrightarrow>
         (task_status (tasks (toggle_run st clicks) ! i) = Completed)
           = (task_completed_at (tasks (toggle_run st clicks) ! i) \<noteq> None)) \<and>
      (task_id (tasks st ! i) \<notin> fst ` set clicks \<longrightarrow>
         tasks (toggle_run st clicks) ! i = tasks st ! i) \<and>
      (task_id (tasks st ! i) = tid \<longrightarrow>
         task_status (tasks (handleToggleTask now st tid True) ! i) = Completed \<and>
         task_completed_at (tasks (handleToggleTask now st tid True) ! i) = Some now \<and>
         task_status (tasks (handleToggleTask now st tid False) ! i) = Active \<and>
         task_completed_at (tasks (handleToggleTask now st tid False) ! i) = None))"
proof (intro conjI allI impI)
  show "length (tasks (toggle_run st clicks)) = length (tasks st)"
    by (rule length_toggle_run)
next
  fix i
  assume "i < length (tasks st)"
    and "task_id (tasks st ! i) \<in> fst ` set clicks \<or> completed_iff_stamped (tasks st ! i)"
  then have "completed_iff_stamped (tasks (toggle_run st clicks) ! i)"
    by (rule toggle_run_consistent)
  then show "(task_status (tasks (toggle_run st clicks) ! i) = Completed)
           = (task_completed_at (tasks (toggle_run st clicks) ! i) \<noteq> None)"
    by (simp add: completed_iff_stamped_def)
next
  fix i
  assume "i < length (tasks st)" and "task_id (tasks st ! i) \<notin> fst ` set clicks"
  then show "tasks (toggle_run st clicks) ! i = tasks st ! i"
    by (rule toggle_run_miss)
next
  fix i
  assume i: "i < length (tasks st)" and hit: "task_id (tasks st ! i) = tid"
  from i hit show "task_status (tasks (handleToggleTask now st tid True) ! i) = Completed"
    by (simp add: handleToggleTask_def)
  from i hit show "task_completed_at (tasks (handleToggleTask now st tid True) ! i) = Some now"
    by (simp add: handleToggleTask_def)
  from i hit show "task_status (tasks (handleToggleTask now st tid False) ! i) = Active"
    by (simp add: handleToggleTask_def)
  from i hit show "task_completed_at (tasks (handleToggleTask now st tid False) ! i) = None"
    by (simp add: handleToggleTask_def)
qed

text \<open>
  The run of the counterexample: the cancelled task is untouched, the toggled ones
  satisfy the equivalence.
\<close>

theorem toggle_run_completed_iff_stamped_witness:
  "map task_id (tasks sample_cancelled) = [''t1'', ''t2'', ''t3''] \<and>
   map fst sample_clicks = [''t2'', ''t3'', ''t3''] \<and>
   map task_status (tasks (toggle_run sample_cancelled sample_clicks))
     = [Cancelled, Completed, Active] \<and>
   map task_completed_at (tasks (toggle_run sample_cancelled sample_clicks))
     = [Some ''2024-01-15T09:00:00.000Z'', Some ''2024-02-01T09:00:00.000Z'', None] \<and>
   tasks (toggle_run sample_cancelled sample_clicks) ! 0 = tasks sample_cancelled ! 0 \<and>
   completed_iff_stamped (tasks (toggle_run sample_cancelled sample_clicks) ! 1) \<and>
   completed_iff_stamped (tasks (toggle_run sample_cancelled sample_clicks) ! 2)"
  using toggle_run_completed_iff_stamped [of sample_cancelled sample_clicks "''t2''"
      "''2024-02-01T09:00:00.000Z''"]
  by (simp add: sample_cancelled_def sample_clicks_def sample_state_def sample_task_def
      handleCancel_def handleUpdateTask_def handleToggleTask_def spread_def no_updates_def
      completed_iff_stamped_def)


section \<open>The updated timestamp\<close>

text \<open>
  C4. Toggling a task and scheduling it from the picker change a field of the task
  and leave its \<open>updated_at\<close> as it was: task \<open>t1\<close> of the sample state, last updated
  on 1 January, is completed with the checkbox, and is moved to \<open>someday\<close> with the
  picker, on 1 February, and still carries the timestamp of 1 January. The same two
  changes made another way stamp it: completing the task from the detail view, and
  moving it to \<open>someday\<close> by drag and drop.
\<close>

theorem toggle_and_schedule_keep_updated_at:
  "task_id (tasks sample_state ! 0) = ''t1'' \<and>
   task_updated_at (tasks sample_state ! 0) = ''2024-01-01T00:00:00.000Z'' \<and>
   task_status (tasks sample_state ! 0) = Active \<and>
   task_status (tasks (handleToggleTask ''2024-02-01T09:00:00.000Z''
      sample_state ''t1'' True) ! 0) = Completed \<and>
   task_updated_at (tasks (handleToggleTask ''2024-02-01T09:00:00.000Z''
      sample_state ''t1'' True) ! 0) = ''2024-01-01T00:00:00.000Z'' \<and>
   task_schedule (tasks sample_state ! 0) = Some Today \<and>
   task_schedule (tasks (handleScheduleTask sample_state ''t1'' (Some Someday)) ! 0)
     = Some Someday \<and>
   task_updated_at (tasks (handleScheduleTask sample_state ''t1'' (Some Someday)) ! 0)
     = ''2024-01-01T00:00:00.000Z'' \<and>
   task_updated_at (tasks (handleMoveTaskToSchedule ''2024-02-01T09:00:00.000Z''
      sample_state ''t1'' Someday) ! 0) = ''2024-02-01T09:00:00.000Z'' \<and>
   task_status (tasks (handleComplete ''2024-02-01T09:00:00.000Z''
      (handleUpdateTask ''2024-02-01T09:00:00.001Z'' sample_state ''t1'')) ! 0) = Completed \<and>
   task_updated_at (tasks (handleComplete ''2024-02-01T09:00:00.000Z''
      (handleUpdateTask ''2024-02-01T09:00:00.001Z'' sample_state ''t1'')) ! 0)
     = ''2024-02-01T09:00:00.001Z''"
  by (simp add: handleToggleTask_def handleScheduleTask_def handleMoveTaskToSchedule_def
      handleComplete_def handleUpdateTask_def spread_def no_updates_def
      sample_state_def sample_task_def)

section \<open>Sorting with a comparison function\<close>

text \<open>
  What insertion guarantees for any comparison function: the result is a permutation
  of the input; a transitive relation that the comparison respects holds between every
  element and every later one; and elements that the comparison never places after one
  another keep the order they had in the input.
\<close>

lemma mset_sort_insert: "mset (sort_insert cmp x ys) = add_mset x (mset ys)"
  by (induction ys) simp_all

lemma mset_array_sort: "mset (array_sort cmp xs) = mset xs"
  by (induction xs) (simp_all add: mset_sort_insert)

lemma set_sort_insert: "set (sort_insert cmp x ys) = insert x (set ys)"
  using mset_sort_insert [of cmp x ys, THEN arg_cong, of set_mset] by simp

lemma set_array_sort: "set (array_sort cmp xs) = set xs"
  using mset_array_sort [of cmp xs, THEN arg_cong, of set_mset] by simp

lemma sorted_wrt_sort_insert:
  assumes trans: "\<And>a b c. a \<in> A \<Longrightarrow> b \<in> A \<Longrightarrow> c \<in> A \<Longrightarrow> R a b \<Longrightarrow> R b c \<Longrightarrow> R a c"
    and before: "\<And>a b. a \<in> A \<Longrightarrow> b \<in> A \<Longrightarrow> compare_result (cmp a b) \<le> 0 \<Longrightarrow> R a b"
    and after: "\<And>a b. a \<in> A \<Longrightarrow> b \<in> A \<Longrightarrow> \<not> compare_result (cmp a b) \<le> 0 \<Longrightarrow> R b a"
    and x: "x \<in> A" and ys: "set ys \<subseteq> A" and sorted: "sorted_wrt R ys"
  shows "sorted_wrt R (sort_insert cmp x ys)"
  using ys sorted
proof (induction ys)
  case Nil
  then show ?case by simp
next
  case (Cons y ys)
  from Cons.prems have y: "y \<in> A" and ys: "set ys \<subseteq> A"
    and y_le: "\<forall>z \<in> set ys. R y z" and sorted_ys: "sorted_wrt R ys"
    by simp_all
  show ?case
  proof (cases "compare_result (cmp x y) \<le> 0")
    case True
    with x y have xy: "R x y" by (rule before)
    have "\<forall>z \<in> set ys. R x z"
    proof
      fix z assume z: "z \<in> set ys"
      with y_le have "R y z" by blast
      with xy show "R x z" using trans [of x y z] x y ys z by blast
    qed
    with True xy Cons.prems show ?thesis by simp
  next
    case False
    with x y have "R y x" by (rule after)
    with y_le have "\<forall>z \<in> set (sort_insert cmp x ys). R y z"
      by (simp add: set_sort_insert)
    moreover have "sorted_wrt R (sort_insert cmp x ys)"
      using Cons.IH ys sorted_ys by blast
    ultimately show ?thesis using False by simp
  qed
qed

lemma sorted_wrt_array_sort:
  assumes trans: "\<And>a b c. a \<in> A \<Longrightarrow> b \<in> A \<Longrightarrow> c \<in> A \<Longrightarrow> R a b \<Longrightarrow> R b c \<Longrightarrow> R a c"
    and before: "\<And>a b. a \<in> A \<Longrightarrow> b \<in> A \<Longrightarrow> compare_result (cmp a b) \<le> 0 \<Longrightarrow> R a b"
    and after: "\<And>a b. a \<in> A \<Longrightarrow> b \<in> A \<Longrightarrow> \<not> compare_result (cmp a b) \<le> 0 \<Longrightarrow> R b a"
    and xs: "set xs \<subseteq> A"
  shows "sorted_wrt R (array_sort cmp xs)"
  using xs
proof (induction xs)
  case Nil
  then show ?case by simp
next
  case (Cons x xs)
  then have x: "x \<in> A" and sub: "set (array_sort cmp xs) \<subseteq> A"
    and sorted: "sorted_wrt R (array_sort cmp xs)"
    by (simp_all add: set_array_sort)
  show ?case
    unfolding array_sort.simps
  proof (rule sorted_wrt_sort_insert [where A = A])
    show "\<And>a b c. a \<in> A \<Longrightarrow> b \<in> A \<Longrightarrow> c \<in> A \<Longrightarrow> R a b \<Longrightarrow> R b c \<Longrightarrow> R a c"
      by (rule trans)
    show "\<And>a b. a \<in> A \<Longrightarrow> b \<in> A \<Longrightarrow> compare_result (cmp a b) \<le> 0 \<Longrightarrow> R a b"
      by (rule before)
    show "\<And>a b. a \<in> A \<Longrightarrow> b \<in> A \<Longrightarrow> \<not> compare_result (cmp a b) \<le> 0 \<Longrightarrow> R b a"
      by (rule after)
  qed (fact x sub sorted)+
qed




section \<open>Sorting by due date\<close>









section \<open>The logbook\<close>

lemma truthy_or:
  "(case truthy x of Some s \<Rightarrow> s | None \<Rightarrow> y)
     = (case x of None \<Rightarrow> y | Some s \<Rightarrow> if s = [] then y else s)"
  by (cases x rule: truthy.cases) simp_all

lemma filteredTasks_logbook_eq:
  assumes "activeView st = ''logbook''"
  shows "filteredTasks getTime st =
     array_sort (\<lambda>a b. number_minus
         (getTime (case task_completed_at b of
                     None \<Rightarrow> task_updated_at b
                   | Some s \<Rightarrow> if s = [] then task_updated_at b else s))
         (getTime (case task_completed_at a of
                     None \<Rightarrow> task_updated_at a
                   | Some s \<Rightarrow> if s = [] then task_updated_at a else s)))
       (filter (\<lambda>t. task_status t = Completed) (tasks st))"
  by (simp add: filteredTasks_def assms startsWith_def truthy_or)

text \<open>
  C6, as the claim states it, fails on the code: three completed tasks, the second
  with a \<open>completed_at\<close> that denotes no date. Every comparison with it gives \<open>NaN\<close>,
  the list stays as it is, and the task completed on 1 February comes before the task
  completed on 3 February.
\<close>

theorem filteredTasks_logbook_undated:
  "activeView sample_logbook_undated = ''logbook'' \<and>
   map task_id (tasks sample_logbook_undated) = [''t1'', ''t2'', ''t3''] \<and>
   map task_status (tasks sample_logbook_undated) = [Completed, Completed, Completed] \<and>
   map task_completed_at (tasks sample_logbook_undated)
     = [Some ''2024-02-01T09:00:00.000Z'', Some ''yesterday'',
        Some ''2024-02-03T09:00:00.000Z''] \<and>
   sample_getTime ''yesterday'' = None \<and>
   sample_getTime ''2024-02-01T09:00:00.000Z'' = Some 1706778000000 \<and>
   sample_getTime ''2024-02-03T09:00:00.000Z'' = Some 1706950800000 \<and>
   map task_id (filteredTasks sample_getTime sample_logbook_undated) = [''t1'', ''t2'', ''t3''] \<and>
   the (sample_getTime (the (task_completed_at
          (filteredTasks sample_getTime sample_logbook_undated ! 0))))
     < the (sample_getTime (the (task_completed_at
          (filteredTasks sample_getTime sample_logbook_undated ! 2))))"
  by (simp add: filteredTasks_def sample_logbook_undated_def sample_state_def sample_done_def
      sample_task_def sample_getTime_def startsWith_def number_minus_def compare_result_def)

text \<open>
  C6, amended. For every task collection, the logbook view holds exactly the tasks
  with status \<open>completed\<close>, each as often as the collection has it. Where the date of
  every completed task denotes a date, they are ordered by date with the most recent
  first; the date of a task is its \<open>completed_at\<close>, or its \<open>updated_at\<close> when
  \<open>completed_at\<close> is \<open>null\<close> (or empty).
\<close>

theorem filteredTasks_logbook:
  assumes view: "activeView st = ''logbook''"
  shows "let r = filteredTasks getTime st;
             date = (\<lambda>t. case task_completed_at t of
                            None \<Rightarrow> task_updated_at t
                          | Some s \<Rightarrow> if s = [] then task_updated_at t else s)
         in mset r = mset (filter (\<lambda>t. task_status t = Completed) (tasks st)) \<and>
            ((\<forall>t \<in> set (tasks st). task_status t = Completed \<longrightarrow> getTime (date t) \<noteq> None) \<longrightarrow>
             (\<forall>i j. i < j \<longrightarrow> j < length r \<longrightarrow>
                the (getTime (date (r ! j))) \<le> the (getTime (date (r ! i)))))"
proof -
  define date :: "task \<Rightarrow> string" where "date = (\<lambda>t. case task_completed_at t of
                            None \<Rightarrow> task_updated_at t
                          | Some s \<Rightarrow> if s = [] then task_updated_at t else s)"
  define cs where "cs = filter (\<lambda>t. task_status t = Completed) (tasks st)"
  have r: "filteredTasks getTime st
             = array_sort (\<lambda>a b. number_minus (getTime (date b)) (getTime (date a))) cs"
    unfolding date_def cs_def using view by (rule filteredTasks_logbook_eq)
  have perm: "mset (filteredTasks getTime st) = mset cs"
    by (simp add: r mset_array_sort)
  have ordered: "\<forall>i j. i < j \<longrightarrow> j < length (filteredTasks getTime st) \<longrightarrow>
      the (getTime (date (filteredTasks getTime st ! j)))
        \<le> the (getTime (date (filteredTasks getTime st ! i)))"
    if valid: "\<forall>t \<in> set (tasks st). task_status t = Completed \<longrightarrow> getTime (date t) \<noteq> None"
  proof -
    have "sorted_wrt (\<lambda>a b. the (getTime (date b)) \<le> the (getTime (date a)))
            (filteredTasks getTime st)"
      unfolding r
    proof (rule sorted_wrt_array_sort [where A = "set cs"], goal_cases)
      case (1 a b c)
      then show ?case by simp
    next
      case (2 a b)
      with valid have "getTime (date a) \<noteq> None" and "getTime (date b) \<noteq> None"
        by (simp_all add: cs_def)
      with 2(3) show ?case
        by (auto simp: compare_result_def number_minus_def)
    next
      case (3 a b)
      with valid have "getTime (date a) \<noteq> None" and "getTime (date b) \<noteq> None"
        by (simp_all add: cs_def)
      with 3(3) show ?case
        by (auto simp: compare_result_def number_minus_def)
    next
      case 4
      show ?case by simp
    qed
    then show ?thesis
      unfolding sorted_wrt_iff_nth_less by blast
  qed
  from perm ordered show ?thesis
    unfolding Let_def date_def [symmetric] cs_def [symmetric] by blast
qed

text \<open>
  Four tasks, one of them active; \<open>t3\<close> was completed without a \<open>completed_at\<close> and
  is placed by its \<open>updated_at\<close>, the latest of the three dates.
\<close>

theorem filteredTasks_logbook_witness:
  "activeView sample_logbook = ''logbook'' \<and>
   map task_id (tasks sample_logbook) = [''t1'', ''t2'', ''t3'', ''t4''] \<and>
   map task_status (tasks sample_logbook) = [Completed, Active, Completed, Completed] \<and>
   map task_completed_at (tasks sample_logbook)
     = [Some ''2024-02-01T09:00:00.000Z'', None, None, Some ''2024-02-02T09:00:00.000Z''] \<and>
   task_updated_at (tasks sample_logbook ! 2) = ''2024-02-03T09:00:00.000Z'' \<and>
   map task_id (filteredTasks sample_getTime sample_logbook) = [''t3'', ''t4'', ''t1'']"
  using filteredTasks_logbook [of sample_logbook sample_getTime]
  by (simp add: filteredTasks_def sample_logbook_def sample_state_def sample_done_def
      sample_task_def sample_getTime_def startsWith_def number_minus_def compare_result_def)


section \<open>Empty titles\<close>

text \<open>
  The forms that create a task, a project or a heading hand a name on only when it is
  not empty after trimming: with a blank name they leave the state as it was.
\<close>

lemma forms_refuse_blank_name:
  "trim title_input = [] \<Longrightarrow>
     handleSubmit trim onSubmit title_input notes_input deadline_input st = st"
  "trim name_input = [] \<Longrightarrow> handleSubmitProject trim onCreateProject name_input st = st"
  "trim name_input = [] \<Longrightarrow> ProjectView_handleAddHeading trim onAddHeading name_input st = st"
  by (simp_all add: handleSubmit_def handleSubmitProject_def ProjectView_handleAddHeading_def)

text \<open>
  C7. A title that is empty or blank is invalid input, and a handler given invalid
  input is to leave every collection unchanged. The form of the detail view does not
  check: \<open>handleSave\<close> sends the title as it is and \<open>handleUpdateTask\<close> applies it.
  Task \<open>t1\<close> of the sample state, saved from the detail view with an empty title, or
  with two blanks, has that title afterwards (and a new \<open>updated_at\<close>), while the
  forms that create a task or a heading leave the state alone for the same input.
\<close>

theorem handleSave_applies_empty_title:
  "task_id (tasks sample_state ! 0) = ''t1'' \<and>
   task_title (tasks sample_state ! 0) = ''Buy milk'' \<and>
   task_title (tasks (handleSave
      (handleUpdateTask ''2024-02-01T09:00:00.000Z'' sample_state ''t1'')
      [] [] (Some Today) [] [] ''p1'') ! 0) = [] \<and>
   task_updated_at (tasks (handleSave
      (handleUpdateTask ''2024-02-01T09:00:00.000Z'' sample_state ''t1'')
      [] [] (Some Today) [] [] ''p1'') ! 0) = ''2024-02-01T09:00:00.000Z'' \<and>
   task_title (tasks (handleSave
      (handleUpdateTask ''2024-02-01T09:00:00.000Z'' sample_state ''t1'')
      [CHR '' '', CHR '' ''] [] (Some Today) [] [] ''p1'') ! 0) = [CHR '' '', CHR '' ''] \<and>
   ascii_trim [] = [] \<and>
   ascii_trim [CHR '' '', CHR '' ''] = [] \<and>
   handleSubmit ascii_trim
     (handleAddTask sample_generateEmoji ''t4'' ''2024-02-01T09:00:00.000Z''
        ''2024-02-01T09:00:00.001Z'')
     [] [] [] sample_state = sample_state \<and>
   ProjectView_handleAddHeading ascii_trim
     (handleAddHeading ''h3'' ''2024-02-01T09:00:00.000Z'')
     [CHR '' '', CHR '' ''] sample_state = sample_state"
  by (simp add: handleSave_def handleUpdateTask_def spread_def no_updates_def
      handleSubmit_def ProjectView_handleAddHeading_def
      ascii_trim_def ascii_white_space_def sample_state_def sample_task_def)


section \<open>Saving and loading\<close>



subsection \<open>Numbers\<close>

lemma is_digit_digit_char: "d < 10 \<Longrightarrow> is_digit (digit_char d)"
  by (simp add: is_digit_def digit_char_def)




lemma show_nat_digits: "\<forall>c \<in> set (show_nat n). is_digit c"
  by (induction n rule: show_nat.induct) (subst show_nat.simps, simp add: is_digit_digit_char)

lemma show_nat_not_Nil: "show_nat n \<noteq> []"
  by (subst show_nat.simps) simp





lemma hd_show_nat_digit: "is_digit (hd (show_nat n))"
  using show_nat_digits [of n] show_nat_not_Nil [of n] by (cases "show_nat n") simp_all



subsection \<open>Strings\<close>





subsection \<open>Values\<close>


lemma value_end_Cons [simp]:
  "value_end (CHR '','' # r)" "value_end (CHR '']'' # r)" "value_end (CHR ''}'' # r)"
  "value_end []"
  by (simp_all add: value_end_def)

lemma value_start_not:
  "value_start c \<Longrightarrow> \<not> is_ws c \<and> c \<noteq> CHR '']'' \<and> c \<noteq> CHR ''}''"
  by (auto simp: value_start_def is_ws_def is_digit_def)

lemma show_int_start: "\<exists>c cs. show_int i = c # cs \<and> (c = CHR ''-'' \<or> is_digit c)"
proof (cases "i < 0")
  case True
  then show ?thesis by (simp add: show_int_def)
next
  case False
  obtain c cs where "show_nat (nat i) = c # cs"
    using show_nat_not_Nil [of "nat i"] by (cases "show_nat (nat i)") auto
  with hd_show_nat_digit [of "nat i"] False show ?thesis by (simp add: show_int_def)
qed

lemma stringify_start: "\<exists>c cs. JSON_stringify v = c # cs \<and> value_start c"
proof (cases v)
  case (JNumber i)
  with show_int_start [of i] show ?thesis by (auto simp: value_start_def)
qed (auto simp: value_start_def quote_def)

lemma skip_ws_start: "value_start c \<Longrightarrow> skip_ws (c # cs) = c # cs"
  by (simp add: skip_ws_def value_start_not)

lemma skip_ws_stringify: "skip_ws (JSON_stringify v @ r) = JSON_stringify v @ r"
  using stringify_start [of v] by (auto simp: skip_ws_start)

lemma skip_ws_delimiter [simp]:
  "skip_ws (CHR '','' # r) = CHR '','' # r" "skip_ws (CHR '']'' # r) = CHR '']'' # r"
  "skip_ws (CHR ''}'' # r) = CHR ''}'' # r" "skip_ws (CHR '':'' # r) = CHR '':'' # r"
  "skip_ws (CHR 0x22 # r) = CHR 0x22 # r" "skip_ws [] = []"
  by (simp_all add: skip_ws_def is_ws_def)






text \<open>
  The two on texts of their own: a text with white space and nesting is read, and a
  trailing comma, a leading zero, a fraction and an unescaped line feed in a string
  are refused; a string is written with its escapes, and read back.
\<close>

lemma JSON_parse_examples:
  "JSON_parse '' [ 1 , -20 , [ true , null ] , {} ] ''
     = Some (JArray [JNumber 1, JNumber (- 20), JArray [JBool True, JNull], JObject []])"
  "JSON_parse ''[1,]'' = None"
  "JSON_parse ''[01]'' = None"
  "JSON_parse ''[1.5]'' = None"
  "JSON_parse [CHR 0x22, CHR ''a'', CHR 0x0A, CHR 0x22] = None"
  "JSON_parse [CHR 0x22, CHR ''a'', CHR 0x5C, CHR ''u'', CHR ''0'', CHR ''0'', CHR ''4'',
               CHR ''A'', CHR 0x5C, CHR ''n'', CHR 0x22]
     = Some (JString [CHR ''a'', CHR ''J'', CHR 0x0A])"
  by code_simp+

lemma JSON_stringify_examples:
  "JSON_stringify (JArray [JNumber 1, JNumber (- 20), JArray [JBool True, JNull], JObject []])
     = ''[1,-20,[true,null],{}]''"
  "JSON_stringify (JObject [(''a'', JString [CHR ''b'', CHR 0x22, CHR 0x0A, CHR 0x01])])
     = [CHR ''{'', CHR 0x22, CHR ''a'', CHR 0x22, CHR '':'', CHR 0x22, CHR ''b'', CHR 0x5C,
        CHR 0x22, CHR 0x5C, CHR ''n'', CHR 0x5C, CHR ''u'', CHR ''0'', CHR ''0'', CHR ''0'',
        CHR ''1'', CHR 0x22, CHR ''}'']"
  by code_simp+

subsection \<open>Rows\<close>

lemma nullable_of_json_of_nullable [simp]: "nullable_of_json (json_of_nullable s) = Some s"
  by (cases s) (simp_all add: json_of_nullable_def)

lemma task_status_of_json_text [simp]:
  "task_status_of_json (JString (task_status_text s)) = Some s"
  by (cases s) (simp_all add: task_status_of_json_def)

lemma project_status_of_json_text [simp]:
  "project_status_of_json (JString (project_status_text s)) = Some s"
  by (cases s) (simp_all add: project_status_of_json_def)

lemma schedule_of_json_of_schedule [simp]: "schedule_of_json (json_of_schedule s) = Some s"
proof (cases s)
  case None
  then show ?thesis by (simp add: json_of_schedule_def schedule_of_json_def)
next
  case (Some x)
  then show ?thesis by (cases x) (simp_all add: json_of_schedule_def schedule_of_json_def)
qed












end
